theory Spec2Isabelle
  imports Main "HOL-Library.Word" "HOL-Library.AList"
begin

unbundle bit_operations_syntax

section \<open>Values, classes and exceptions\<close>

text \<open>
  The module \<^verbatim>\<open>woql_schema.py\<close> works on Python objects: document instances, plain
  dictionaries, lists, enumeration members and key-strategy objects. Strings are kept as
  their UTF-8 bytes (\<open>quote\<close> and \<open>sha256\<close> both work on the encoded bytes, and joining
  commutes with the encoding). Floats and dates are not values of this model.

  A class is described by what the code reads from it: \<open>__name__\<close>, the name of
  \<open>__base__\<close>, the names along \<open>__mro__\<close>, whether \<open>__doc__\<close> is truthy together with
  the documentation dictionary that numpydoc's \<open>ClassDoc\<close> yields for it, the attributes
  that \<open>hasattr\<close>/\<open>getattr\<close> find on the class through its MRO (\<open>_base\<close>,
  \<open>_subdocument\<close>, \<open>_abstract\<close>, \<open>_key\<close>, ...), and the merged \<open>_annotations\<close>
  dictionary installed by the metaclass. Dictionaries are association lists in insertion
  order; \<open>AList.update\<close> is Python's \<open>d[k] = v\<close>.
\<close>

datatype pytype =
    TStr | TInt | TBool | TFloat
  | TList pytype | TSet pytype | TOptional pytype
  | TClass string

datatype keyobj =
    HashKey "string list"
  | LexicalKey "string list"
  | ValueHashKey
  | RandomKey

datatype 'v pycls = PyClass
  (cname: string)
  (cbase_name: string)
  (cmro: "string list")
  (cdoc: "'v option")
  (cattrs: "(string \<times> 'v) list")
  (cannotations: "(string \<times> pytype) list")

datatype pyval =
    VNone
  | VBool bool
  | VInt int
  | VStr string
  | VList "pyval list"
  | VDict "(string \<times> pyval) list"
  | VEnum string
  | VKey keyobj
  | VObj "pyval pycls" "(string \<times> pyval) list"

type_synonym pydict = "(string \<times> pyval) list"
type_synonym pyclass = "pyval pycls"

text \<open>
  \<open>VEnum s\<close> is an enumeration member whose \<open>str()\<close> is \<open>s\<close> (for an \<open>EnumTemplate\<close>
  member, its \<open>_value_\<close>). \<open>VObj c d\<close> is an instance of the document class \<open>c\<close> with
  instance dictionary \<open>d\<close>.

  The exceptions the modelled code raises. \<open>LiteralEvalError\<close> stands for what
  \<open>ast.literal_eval\<close> raises on a text that is not a literal display (\<open>ValueError:
  malformed node or string\<close>, or \<open>SyntaxError\<close> when the text does not parse).
\<close>

datatype pyexc =
    CannotGet string
  | KeysNeedDatatype
  | CannotDeterminPrefix
  | LiteralEvalError
  | TypeError
  | AttributeError string
  | NotInList string

datatype idgen_obj =
    Document pyclass pydict
  | Dictionary pydict

section \<open>Library functions used by the identifier strategies\<close>

subsection \<open>str() of the datatype values\<close>

definition digit_char :: "nat \<Rightarrow> char" where
  "digit_char d = char_of (48 + d)"

fun str_nat :: "nat \<Rightarrow> string" where
  "str_nat n = (if n < 10 then [digit_char n] else str_nat (n div 10) @ [digit_char (n mod 10)])"

definition str_int :: "int \<Rightarrow> string" where
  "str_int i = (if i < 0 then CHR ''-'' # str_nat (nat (- i)) else str_nat (nat i))"

text \<open>
  \<open>CONVERT_TYPE\<close> lives in \<^verbatim>\<open>woql_type.py\<close>, which is not part of the source at hand.

  Modelled from the spec: \<open>CONVERT_TYPE\<close>, "a mapping from host primitive type to a
  schema type-tag string"; its keys are "the recognized primitive-type set". Of the values
  of this model those are \<open>str\<close>, \<open>bool\<close> and \<open>int\<close>. \<open>as_datatype\<close> is the test
  \<^verbatim>\<open>isinstance(key_item, tuple(CONVERT_TYPE.keys()))\<close> followed by \<^verbatim>\<open>str(key_item)\<close>.
\<close>

fun as_datatype :: "pyval \<Rightarrow> string option" where
  "as_datatype (VStr s) = Some s"
| "as_datatype (VInt i) = Some (str_int i)"
| "as_datatype (VBool b) = Some (if b then ''True'' else ''False'')"
| "as_datatype _ = None"

subsection \<open>str.join\<close>

fun join :: "string \<Rightarrow> string list \<Rightarrow> string" where
  "join sep [] = []"
| "join sep [x] = x"
| "join sep (x # y # ys) = x @ sep @ join sep (y # ys)"

subsection \<open>urllib.parse.quote\<close>

text \<open>
  \<open>quote(s)\<close> with the default \<open>safe='/'\<close>: the UTF-8 bytes of \<open>s\<close>, where every byte
  that is not an ASCII letter, a digit or one of \<open>_ . - ~ /\<close> is written as \<open>%XX\<close> with
  upper-case hexadecimal digits.
\<close>

definition always_safe :: "char \<Rightarrow> bool" where
  "always_safe c \<longleftrightarrow>
     (let n = (of_char c :: nat) in
      (65 \<le> n \<and> n \<le> 90) \<or> (97 \<le> n \<and> n \<le> 122) \<or> (48 \<le> n \<and> n \<le> 57)
      \<or> c \<in> set ''_.-~'')"

definition hex_upper :: "nat \<Rightarrow> char" where
  "hex_upper d = (if d < 10 then char_of (48 + d) else char_of (55 + d))"

definition hex_lower :: "nat \<Rightarrow> char" where
  "hex_lower d = (if d < 10 then char_of (48 + d) else char_of (87 + d))"

definition quote_byte :: "char \<Rightarrow> string" where
  "quote_byte c =
     (if always_safe c \<or> c = CHR ''/'' then [c]
      else (let n = (of_char c :: nat) in [CHR ''%'', hex_upper (n div 16), hex_upper (n mod 16)]))"

definition quote :: "string \<Rightarrow> string" where
  "quote s = concat (map quote_byte s)"

subsection \<open>hashlib.sha256\<close>

type_synonym u32 = "32 word"

text \<open>
  The round constants are the first 32 bits of the fractional parts of the cube roots
  of the first 64 primes, the initial hash value those of the square roots of the
  first 8 primes.
\<close>

definition sha256_K :: "u32 list" where
  "sha256_K =
   [1116352408, 1899447441, 3049323471, 3921009573, 961987163, 1508970993,
    2453635748, 2870763221, 3624381080, 310598401, 607225278, 1426881987,
    1925078388, 2162078206, 2614888103, 3248222580, 3835390401, 4022224774,
    264347078, 604807628, 770255983, 1249150122, 1555081692, 1996064986,
    2554220882, 2821834349, 2952996808, 3210313671, 3336571891, 3584528711,
    113926993, 338241895, 666307205, 773529912, 1294757372, 1396182291,
    1695183700, 1986661051, 2177026350, 2456956037, 2730485921, 2820302411,
    3259730800, 3345764771, 3516065817, 3600352804, 4094571909, 275423344,
    430227734, 506948616, 659060556, 883997877, 958139571, 1322822218,
    1537002063, 1747873779, 1955562222, 2024104815, 2227730452, 2361852424,
    2428436474, 2756734187, 3204031479, 3329325298]"

definition sha256_H0 :: "u32 list" where
  "sha256_H0 =
   [1779033703, 3144134277, 1013904242, 2773480762, 1359893119, 2600822924, 528734635, 1541459225]"

definition be_bytes :: "nat \<Rightarrow> nat \<Rightarrow> nat list" where
  "be_bytes k n = map (\<lambda>i. (n div 256 ^ (k - 1 - i)) mod 256) [0..<k]"

definition sha256_pad :: "nat list \<Rightarrow> nat list" where
  "sha256_pad m =
     (let l = length m
      in m @ [128] @ replicate ((55 + 64 - l mod 64) mod 64) 0 @ be_bytes 8 (8 * l))"

fun be_word :: "nat list \<Rightarrow> u32" where
  "be_word bs = of_nat (foldl (\<lambda>acc b. acc * 256 + b) 0 bs)"

fun chunks :: "nat \<Rightarrow> nat \<Rightarrow> 'a list \<Rightarrow> 'a list list" where
  "chunks 0 k xs = []"
| "chunks (Suc n) k xs = take k xs # chunks n k (drop k xs)"

definition small_sigma0 :: "u32 \<Rightarrow> u32" where
  "small_sigma0 x = word_rotr 7 x XOR word_rotr 18 x XOR drop_bit 3 x"

definition small_sigma1 :: "u32 \<Rightarrow> u32" where
  "small_sigma1 x = word_rotr 17 x XOR word_rotr 19 x XOR drop_bit 10 x"

definition big_sigma0 :: "u32 \<Rightarrow> u32" where
  "big_sigma0 x = word_rotr 2 x XOR word_rotr 13 x XOR word_rotr 22 x"

definition big_sigma1 :: "u32 \<Rightarrow> u32" where
  "big_sigma1 x = word_rotr 6 x XOR word_rotr 11 x XOR word_rotr 25 x"

fun sha256_schedule :: "nat \<Rightarrow> u32 list \<Rightarrow> u32 list" where
  "sha256_schedule 0 w = w"
| "sha256_schedule (Suc n) w =
     (let t = length w
      in sha256_schedule n
           (w @ [small_sigma1 (w ! (t - 2)) + w ! (t - 7) + small_sigma0 (w ! (t - 15)) + w ! (t - 16)]))"

fun sha256_round :: "u32 list \<Rightarrow> u32 \<times> u32 \<Rightarrow> u32 list" where
  "sha256_round [a, b, c, d, e, f, g, h] (k, w) =
     (let t1 = h + big_sigma1 e + ((e AND f) XOR (NOT e AND g)) + k + w;
          t2 = big_sigma0 a + ((a AND b) XOR (a AND c) XOR (b AND c))
      in [t1 + t2, a, b, c, d + t1, e, f, g])"
| "sha256_round s _ = s"

definition sha256_block :: "u32 list \<Rightarrow> nat list \<Rightarrow> u32 list" where
  "sha256_block hs blk =
     (let w = sha256_schedule 48 (map be_word (chunks 16 4 blk))
      in map2 (+) hs (foldl sha256_round hs (zip sha256_K w)))"

definition sha256 :: "string \<Rightarrow> u32 list" where
  "sha256 s =
     (let m = sha256_pad (map of_char s)
      in foldl sha256_block sha256_H0 (chunks (length m div 64) 64 m))"

definition hex_word :: "u32 \<Rightarrow> string" where
  "hex_word w = map (\<lambda>i. hex_lower ((unat w div 16 ^ (7 - i)) mod 16)) [0..<8]"

definition sha256_hexdigest :: "string \<Rightarrow> string" where
  "sha256_hexdigest s = concat (map hex_word (sha256 s))"

section \<open>Identifier strategies\<close>

subsection \<open>Reading a key field\<close>

text \<open>
  \<open>hasattr(obj, item)\<close> on a document instance looks in the instance dictionary and
  then on the class. On a plain \<open>dict\<close> it finds the attributes of the built-in type
  (the names that \<open>dir({})\<close> lists in CPython 3.11), never the entries.
\<close>

definition hasattr_doc :: "pyclass \<Rightarrow> pydict \<Rightarrow> string \<Rightarrow> bool" where
  "hasattr_doc c d n \<longleftrightarrow> map_of d n \<noteq> None \<or> map_of (cattrs c) n \<noteq> None"

definition getattr_doc :: "pyclass \<Rightarrow> pydict \<Rightarrow> string \<Rightarrow> pyval option" where
  "getattr_doc c d n = (case map_of d n of Some v \<Rightarrow> Some v | None \<Rightarrow> map_of (cattrs c) n)"

definition dict_attr_names :: "string list" where
  "dict_attr_names =
   [''__class__'', ''__class_getitem__'', ''__contains__'', ''__delattr__'', ''__delitem__'',
    ''__dir__'', ''__doc__'', ''__eq__'', ''__format__'', ''__ge__'', ''__getattribute__'',
    ''__getitem__'', ''__getstate__'', ''__gt__'', ''__hash__'', ''__init__'',
    ''__init_subclass__'', ''__ior__'', ''__iter__'', ''__le__'', ''__len__'', ''__lt__'',
    ''__ne__'', ''__new__'', ''__or__'', ''__reduce__'', ''__reduce_ex__'', ''__repr__'',
    ''__reversed__'', ''__ror__'', ''__setattr__'', ''__setitem__'', ''__sizeof__'', ''__str__'',
    ''__subclasshook__'', ''clear'', ''copy'', ''fromkeys'', ''get'', ''items'', ''keys'', ''pop'',
    ''popitem'', ''setdefault'', ''update'', ''values'']"

definition dict_get :: "pydict \<Rightarrow> string \<Rightarrow> pyval" where
  "dict_get d k = (case map_of d k of Some v \<Rightarrow> v | None \<Rightarrow> VNone)"

text \<open>
  \<^verbatim>\<open>ast.literal_eval(f"obj.{item}")\<close>: the argument is the text \<open>obj.<item>\<close>, not the
  object. \<open>literal_eval\<close> evaluates literal displays only (constants, tuples, lists, sets,
  dicts, signed numbers); the text \<open>obj.<item>\<close> starts with the name \<open>obj\<close>, so it
  parses to an attribute access (or does not parse), and \<open>literal_eval\<close> raises without
  ever looking at \<open>obj\<close>.
\<close>

definition literal_eval_obj_attr :: "string \<Rightarrow> pyexc + pyval" where
  "literal_eval_obj_attr item = Inl LiteralEvalError"

fun key_item :: "idgen_obj \<Rightarrow> string \<Rightarrow> pyexc + pyval" where
  "key_item (Document c d) item =
     (if hasattr_doc c d item then literal_eval_obj_attr item
      else Inl (CannotGet item))"
| "key_item (Dictionary d) item =
     (if item \<in> set dict_attr_names then literal_eval_obj_attr item
      else if dict_get d item \<noteq> VNone then Inr (dict_get d item)
      else Inl (CannotGet item))"

text \<open>The loop over \<open>self._keys\<close>, the same in \<open>HashKey.idgen\<close> and \<open>LexicalKey.idgen\<close>.\<close>

fun key_list :: "string list \<Rightarrow> idgen_obj \<Rightarrow> pyexc + string list" where
  "key_list [] obj = Inr []"
| "key_list (item # items) obj =
     (case key_item obj item of
        Inl e \<Rightarrow> Inl e
      | Inr v \<Rightarrow>
          (case as_datatype v of
             None \<Rightarrow> Inl KeysNeedDatatype
           | Some s \<Rightarrow>
               (case key_list items obj of
                  Inl e \<Rightarrow> Inl e
                | Inr ss \<Rightarrow> Inr (s # ss))))"

subsection \<open>The prefix\<close>

text \<open>
  \<open>x + "_"\<close> raises \<open>TypeError\<close> unless \<open>x\<close> is a string. The class of a plain
  dictionary is \<open>dict\<close>: it has no \<open>_base\<close>, and its \<open>__name__\<close> is \<open>dict\<close>. Every
  class has a \<open>__name__\<close>.
\<close>

fun add_str :: "pyval \<Rightarrow> string \<Rightarrow> pyexc + string" where
  "add_str (VStr s) t = Inr (s @ t)"
| "add_str _ t = Inl TypeError"

fun class_base :: "idgen_obj \<Rightarrow> pyval option" where
  "class_base (Document c d) = map_of (cattrs c) ''_base''"
| "class_base (Dictionary d) = None"

fun class_name :: "idgen_obj \<Rightarrow> string option" where
  "class_name (Document c d) = Some (cname c)"
| "class_name (Dictionary d) = Some ''dict''"

fun dict_type :: "idgen_obj \<Rightarrow> pyval" where
  "dict_type (Dictionary d) = dict_get d ''@type''"
| "dict_type (Document c d) = VNone"

definition prefix_of :: "idgen_obj \<Rightarrow> pyexc + string" where
  "prefix_of obj =
     (if dict_type obj \<noteq> VNone then add_str (dict_type obj) ''_''
      else case class_base obj of
        Some b \<Rightarrow> add_str b ''_''
      | None \<Rightarrow>
          (case class_name obj of
             Some n \<Rightarrow> Inr (n @ ''_'')
           | None \<Rightarrow> Inl CannotDeterminPrefix))"

subsection \<open>The four strategies\<close>

definition HashKey_idgen :: "string list \<Rightarrow> idgen_obj \<Rightarrow> pyexc + string" where
  "HashKey_idgen keys obj =
     (case key_list keys obj of
        Inl e \<Rightarrow> Inl e
      | Inr kl \<Rightarrow>
          (case prefix_of obj of
             Inl e \<Rightarrow> Inl e
           | Inr prefix \<Rightarrow> Inr (prefix @ sha256_hexdigest (quote (join ''_'' kl)))))"

definition LexicalKey_idgen :: "string list \<Rightarrow> idgen_obj \<Rightarrow> pyexc + string" where
  "LexicalKey_idgen keys obj =
     (case key_list keys obj of
        Inl e \<Rightarrow> Inl e
      | Inr kl \<Rightarrow>
          (case prefix_of obj of
             Inl e \<Rightarrow> Inl e
           | Inr prefix \<Rightarrow> Inr (prefix @ quote (join ''_'' kl))))"

text \<open>\<open>uuid4().hex\<close> is the random draw; the caller of the model supplies it.\<close>

definition RandomKey_idgen :: "string \<Rightarrow> idgen_obj \<Rightarrow> pyexc + string" where
  "RandomKey_idgen uuid4_hex obj =
     (case prefix_of obj of
        Inl e \<Rightarrow> Inl e
      | Inr prefix \<Rightarrow> Inr (prefix @ uuid4_hex))"

text \<open>
  The call \<open>key.idgen(obj)\<close>. \<open>ValueHashKey\<close> defines no \<open>idgen\<close> (its body is commented
  out), so the attribute lookup raises \<open>AttributeError\<close>.
\<close>

fun idgen :: "keyobj \<Rightarrow> string \<Rightarrow> idgen_obj \<Rightarrow> pyexc + string" where
  "idgen (HashKey keys) u obj = HashKey_idgen keys obj"
| "idgen (LexicalKey keys) u obj = LexicalKey_idgen keys obj"
| "idgen ValueHashKey u obj = Inl (AttributeError ''idgen'')"
| "idgen RandomKey u obj = RandomKey_idgen u obj"

fun at_type :: "keyobj \<Rightarrow> string" where
  "at_type (HashKey keys) = ''Hash''"
| "at_type (LexicalKey keys) = ''Lexical''"
| "at_type ValueHashKey = ''ValueHash''"
| "at_type RandomKey = ''Random''"

section \<open>The metaclass: merged annotations\<close>

text \<open>
  \<open>dict.update(other)\<close> stores every entry of \<open>other\<close>, in order, overwriting the
  value of a key that is already there. \<open>TerminusClass_annotations\<close> is the first part
  of \<open>TerminusClass.__init__\<close>: a base is given by its \<open>_annotations\<close> when it has the
  attribute.
\<close>

definition dict_update :: "('k \<times> 'v) list \<Rightarrow> ('k \<times> 'v) list \<Rightarrow> ('k \<times> 'v) list" where
  "dict_update d other = foldl (\<lambda>acc (k, v). AList.update k v acc) d other"

definition TerminusClass_annotations ::
  "(string \<times> pytype) list option \<Rightarrow> (string \<times> pytype) list option list \<Rightarrow> (string \<times> pytype) list"
where
  "TerminusClass_annotations nmspc_annotations bases =
     foldl (\<lambda>annotations parent.
              dict_update annotations (case parent of Some a \<Rightarrow> a | None \<Rightarrow> []))
           (case nmspc_annotations of Some a \<Rightarrow> a | None \<Rightarrow> [])
           bases"

section \<open>Class-level serialization\<close>

text \<open>
  \<open>DocumentTemplate._to_dict\<close>. \<open>to_woql_type\<close> lives in \<^verbatim>\<open>woql_type.py\<close> and is a
  parameter here. \<open>cdoc\<close> is \<open>None\<close> when \<open>cls.__doc__\<close> is falsy, and otherwise the
  \<open>@documentation\<close> dictionary built from \<open>ClassDoc(cls)\<close>.
\<close>

fun index_of :: "'a list \<Rightarrow> 'a \<Rightarrow> nat option" where
  "index_of [] x = None"
| "index_of (y # ys) x = (if y = x then Some 0 else map_option Suc (index_of ys x))"

definition key_entry :: "pyval \<Rightarrow> pyexc + pyval" where
  "key_entry k =
     (case k of
        VKey (HashKey keys) \<Rightarrow>
          Inr (VDict [(''@type'', VStr ''Hash''), (''@fields'', VList (map VStr keys))])
      | VKey (LexicalKey keys) \<Rightarrow>
          Inr (VDict [(''@type'', VStr ''Lexical''), (''@fields'', VList (map VStr keys))])
      | VKey ko \<Rightarrow> Inr (VDict [(''@type'', VStr (at_type ko))])
      | _ \<Rightarrow> Inl (AttributeError ''at_type''))"

definition to_dict_head :: "pyclass \<Rightarrow> pyexc + pydict" where
  "to_dict_head cls =
     (let result = [(''@type'', VStr ''Class''), (''@id'', VStr (cname cls))]
      in if cbase_name cls \<noteq> ''DocumentTemplate'' then
           (case index_of (cmro cls) ''DocumentTemplate'' of
              None \<Rightarrow> Inl (NotInList ''DocumentTemplate'')
            | Some i \<Rightarrow>
                Inr (AList.update ''@inherits'' (VList (map VStr (drop 1 (take i (cmro cls))))) result))
         else if cbase_name cls = ''TaggedUnion'' then
           Inr (AList.update ''@type'' (VStr ''TaggedUnion'') result)
         else Inr result)"

definition to_dict_flags :: "pyclass \<Rightarrow> pydict \<Rightarrow> pydict" where
  "to_dict_flags cls result0 =
     (let result1 = (case cdoc cls of
                       Some doc \<Rightarrow> AList.update ''@documentation'' doc result0
                     | None \<Rightarrow> result0);
          result2 = (case map_of (cattrs cls) ''_base'' of
                       Some b \<Rightarrow> AList.update ''@base'' b result1
                     | None \<Rightarrow> result1);
          result3 = (case map_of (cattrs cls) ''_subdocument'' of
                       Some s \<Rightarrow>
                         AList.update ''@key'' (VDict [(''@type'', VStr ''Random'')])
                           (AList.update ''@subdocument'' s result2)
                     | None \<Rightarrow> result2)
      in (case map_of (cattrs cls) ''_abstract'' of
            Some a \<Rightarrow> AList.update ''@abstract'' a result3
          | None \<Rightarrow> result3))"

definition to_dict_key :: "pyclass \<Rightarrow> pydict \<Rightarrow> pyexc + pydict" where
  "to_dict_key cls result =
     (case map_of (cattrs cls) ''_key'' of
        Some k \<Rightarrow>
          (if map_of (cattrs cls) ''_subdocument'' = None then
             (case key_entry k of
                Inl e \<Rightarrow> Inl e
              | Inr entry \<Rightarrow> Inr (AList.update ''@key'' entry result))
           else Inr result)
      | None \<Rightarrow> Inr result)"

definition to_dict_fields :: "(pytype \<Rightarrow> pyval) \<Rightarrow> pyclass \<Rightarrow> pydict \<Rightarrow> pydict" where
  "to_dict_fields to_woql_type cls result =
     foldl (\<lambda>r (attr, attr_type). AList.update attr (to_woql_type attr_type) r)
           result (cannotations cls)"

definition DocumentTemplate_to_dict :: "(pytype \<Rightarrow> pyval) \<Rightarrow> pyclass \<Rightarrow> pyexc + pydict" where
  "DocumentTemplate_to_dict to_woql_type cls =
     (case to_dict_head cls of
        Inl e \<Rightarrow> Inl e
      | Inr result \<Rightarrow>
          (case to_dict_key cls (to_dict_flags cls result) of
             Inl e \<Rightarrow> Inl e
           | Inr result' \<Rightarrow> Inr (to_dict_fields to_woql_type cls result')))"

section \<open>Instance serialization\<close>

text \<open>
  \<open>DocumentTemplate._obj_to_dict\<close>. \<open>self._annotations\<close> is the class's merged
  dictionary (the generated constructor stores that very object on the instance).
  \<open>hasattr(k, "idgen")\<close> holds for the three strategies that define the method.
  Of the values of this model only document instances belong to a class with
  \<open>_subdocument\<close>, \<open>_key\<close>, \<open>_id\<close> or \<open>_obj_to_dict\<close>, so the branches are written
  per kind of value, in the order of the source: inline, reference, list, enumeration
  member, raw value. Values are finite trees: an object graph with a cycle, on which the
  Python recursion does not end, is not a value of the model.
\<close>

fun has_idgen :: "pyval \<Rightarrow> bool" where
  "has_idgen (VKey ValueHashKey) = False"
| "has_idgen (VKey ko) = True"
| "has_idgen _ = False"

definition inlined :: "pyclass \<Rightarrow> bool" where
  "inlined c =
     (if map_of (cattrs c) ''_subdocument'' = None
      then (case map_of (cattrs c) ''_key'' of Some k \<Rightarrow> \<not> has_idgen k | None \<Rightarrow> False)
      else True)"

function (sequential) obj_to_dict :: "pyclass \<Rightarrow> pydict \<Rightarrow> pydict"
  and fields_to_dict :: "pyclass \<Rightarrow> pydict \<Rightarrow> string list \<Rightarrow> pydict \<Rightarrow> pydict"
  and item_to_doc :: "pyval \<Rightarrow> pyval"
  and list_to_doc :: "pyval list \<Rightarrow> pyval list"
where
  "obj_to_dict c d =
     fields_to_dict c d (map fst (cannotations c))
       (case getattr_doc c d ''_id'' of
          Some i \<Rightarrow> [(''@type'', VStr (cname c)), (''@id'', i)]
        | None \<Rightarrow> [(''@type'', VStr (cname c))])"
| "fields_to_dict c d [] result = result"
| "fields_to_dict c d (item # items) result =
     (case getattr_doc c d item of
        None \<Rightarrow> fields_to_dict c d items result
      | Some the_item \<Rightarrow>
          if the_item = VNone then fields_to_dict c d items result
          else fields_to_dict c d items (AList.update item (item_to_doc the_item) result))"
| "item_to_doc (VObj c d) =
     (if inlined c then VDict (obj_to_dict c d)
      else case getattr_doc c d ''_id'' of
        Some i \<Rightarrow> VDict [(''@id'', i), (''@type'', VStr ''@id'')]
      | None \<Rightarrow> VObj c d)"
| "item_to_doc (VList xs) = VList (list_to_doc xs)"
| "item_to_doc (VEnum s) = VStr s"
| "item_to_doc v = v"
| "list_to_doc [] = []"
| "list_to_doc (sub_item # xs) =
     (case sub_item of
        VObj c d \<Rightarrow> VDict (obj_to_dict c d)
      | _ \<Rightarrow> sub_item) # list_to_doc xs"
  by pat_completeness auto

termination
proof -
  have lookup: "size v < Suc (size_list (size_prod (\<lambda>_. 0) size) al)"
    if "map_of al n = Some v" for al :: pydict and n v
    using that by (induction al) (auto split: if_splits)
  have attr: "size v < size (VObj c d)" if "getattr_doc c d n = Some v" for c d n v
    using that by (cases c) (auto simp: getattr_doc_def split: option.splits dest!: lookup)
  show ?thesis
    by (relation "measures
         [\<lambda>x. case x of
                Inl (Inl (c, d)) \<Rightarrow> 3 * size (VObj c d) + 1
              | Inl (Inr (c, d, items, r)) \<Rightarrow> 3 * size (VObj c d)
              | Inr (Inl v) \<Rightarrow> 3 * size v + 2
              | Inr (Inr xs) \<Rightarrow> 3 * size_list size xs + 2,
          \<lambda>x. case x of
                Inl (Inr (c, d, items, r)) \<Rightarrow> length items
              | _ \<Rightarrow> 0]")
       (auto dest: attr)
qed

text \<open>The public name of the operation.\<close>

definition to_document :: "pyclass \<Rightarrow> pydict \<Rightarrow> pydict" where
  "to_document c d = obj_to_dict c d"

section \<open>The schema container\<close>

text \<open>
  Classes and \<open>WOQLSchema\<close> objects are mutable and shared, so they live in a store and
  are named by their addresses. A \<open>WOQLSchema\<close> object holds one attribute, the set
  \<open>object\<close> of the classes registered in it. \<open>next_addr\<close> is the next free address.
\<close>

record heap =
  classes :: "nat \<rightharpoonup> pyclass"
  schemas :: "nat \<rightharpoonup> nat set"
  next_addr :: nat

definition WOQLSchema_init :: "heap \<Rightarrow> heap \<times> nat" where
  "WOQLSchema_init h =
     (h\<lparr>schemas := (schemas h)(next_addr h \<mapsto> {}), next_addr := Suc (next_addr h)\<rparr>, next_addr h)"

definition add_obj :: "heap \<Rightarrow> nat \<Rightarrow> nat \<Rightarrow> heap" where
  "add_obj h self obj =
     (case schemas h self of
        Some objs \<Rightarrow> h\<lparr>schemas := (schemas h)(self \<mapsto> insert obj objs)\<rparr>
      | None \<Rightarrow> h)"

definition all_obj :: "heap \<Rightarrow> nat \<Rightarrow> nat set option" where
  "all_obj h self = schemas h self"

text \<open>
  \<open>copy.deepcopy\<close> rebuilds the \<open>WOQLSchema\<close> object and its \<open>object\<close> set, copying
  each member in turn. A class is an instance of \<open>TerminusClass\<close>, a subclass of
  \<open>type\<close>, and \<open>deepcopy\<close> hands every such object back unchanged ("it does copy
  functions and classes, shallow and deeply, by returning the original object
  unchanged"): the member of the new set is the same address.
\<close>

definition deepcopy_class :: "nat \<Rightarrow> nat" where
  "deepcopy_class a = a"

definition WOQLSchema_copy :: "heap \<Rightarrow> nat \<Rightarrow> (heap \<times> nat) option" where
  "WOQLSchema_copy h self =
     (case schemas h self of
        None \<Rightarrow> None
      | Some objs \<Rightarrow>
          Some (h\<lparr>schemas := (schemas h)(next_addr h \<mapsto> deepcopy_class ` objs),
                  next_addr := Suc (next_addr h)\<rparr>,
                next_addr h))"

text \<open>
  Assigning a class attribute (\<open>cls.name = v\<close>), the mutation of class metadata.
  \<open>class_at\<close> reads the class an address names.
\<close>

definition set_class_attr :: "heap \<Rightarrow> nat \<Rightarrow> string \<Rightarrow> pyval \<Rightarrow> heap" where
  "set_class_attr h a n v =
     (case classes h a of
        Some (PyClass nm b m doc attrs anns) \<Rightarrow>
          h\<lparr>classes := (classes h)(a \<mapsto> PyClass nm b m doc (AList.update n v attrs) anns)\<rparr>
      | None \<Rightarrow> h)"

definition class_at :: "heap \<Rightarrow> nat \<Rightarrow> pyclass option" where
  "class_at h a = classes h a"

text \<open>Addresses in use lie below \<open>next_addr\<close>.\<close>

definition heap_ok :: "heap \<Rightarrow> bool" where
  "heap_ok h \<longleftrightarrow> (\<forall>a. next_addr h \<le> a \<longrightarrow> schemas h a = None \<and> classes h a = None)"

section \<open>Example classes, instances and stores\<close>

text \<open>
  \<open>Person\<close> is the class of the scenario: fields \<open>name\<close> and \<open>age\<close>, a lexical key on
  \<open>name\<close>. \<open>Ann\<close> is the instance dictionary of \<open>Person(name="Ann Lee", age=30)\<close>.
  Every document class inherits \<open>_schema\<close> and \<open>_key\<close> from \<open>DocumentTemplate\<close>.
\<close>

definition Person :: pyclass where
  "Person = PyClass ''Person'' ''DocumentTemplate'' [''Person'', ''DocumentTemplate'', ''object'']
     None [(''_schema'', VNone), (''_key'', VKey (LexicalKey [''name'']))]
     [(''name'', TStr), (''age'', TInt)]"

definition Ann :: pydict where
  "Ann = [(''name'', VStr ''Ann Lee''), (''age'', VInt 30)]"

text \<open>\<open>class Choice(TaggedUnion): pass\<close>\<close>

definition Choice :: pyclass where
  "Choice = PyClass ''Choice'' ''TaggedUnion''
     [''Choice'', ''TaggedUnion'', ''DocumentTemplate'', ''object'']
     None [(''_schema'', VNone), (''_key'', VKey RandomKey)] []"


text \<open>
  \<open>Address\<close> is a sub-document class (\<open>_subdocument = []\<close>), \<open>Country\<close> an ordinary
  class, \<open>Stamp\<close> a class keyed by \<open>ValueHashKey()\<close>, \<open>Customer\<close> a class with one
  field of each. \<open>Street\<close> sets \<open>_subdocument = False\<close> and a hash key.
\<close>

definition Address :: pyclass where
  "Address = PyClass ''Address'' ''DocumentTemplate'' [''Address'', ''DocumentTemplate'', ''object'']
     None [(''_schema'', VNone), (''_key'', VKey RandomKey), (''_subdocument'', VList [])]
     [(''street'', TStr)]"

definition Country :: pyclass where
  "Country = PyClass ''Country'' ''DocumentTemplate'' [''Country'', ''DocumentTemplate'', ''object'']
     None [(''_schema'', VNone), (''_key'', VKey RandomKey)]
     [(''name'', TStr)]"

definition Stamp :: pyclass where
  "Stamp = PyClass ''Stamp'' ''DocumentTemplate'' [''Stamp'', ''DocumentTemplate'', ''object'']
     None [(''_schema'', VNone), (''_key'', VKey ValueHashKey)]
     [(''code'', TStr)]"

definition Customer :: pyclass where
  "Customer = PyClass ''Customer'' ''DocumentTemplate'' [''Customer'', ''DocumentTemplate'', ''object'']
     None [(''_schema'', VNone), (''_key'', VKey RandomKey)]
     [(''address'', TClass ''Address''), (''country'', TClass ''Country''), (''stamp'', TClass ''Stamp'')]"

definition home :: pydict where
  "home = [(''street'', VStr ''Main''), (''_id'', VStr ''Address_1'')]"

definition france :: pydict where
  "france = [(''name'', VStr ''France''), (''_id'', VStr ''Country_1'')]"

definition stamp1 :: pydict where
  "stamp1 = [(''code'', VStr ''s''), (''_id'', VStr ''Stamp_1'')]"

definition customer1 :: pydict where
  "customer1 = [(''address'', VObj Address home), (''country'', VObj Country france),
                (''stamp'', VObj Stamp stamp1)]"

definition Street :: pyclass where
  "Street = PyClass ''Street'' ''DocumentTemplate'' [''Street'', ''DocumentTemplate'', ''object'']
     None [(''_schema'', VNone), (''_key'', VKey (HashKey [''name''])), (''_subdocument'', VBool False)]
     [(''name'', TStr)]"

text \<open>
  A store with the class \<open>Street\<close> at address 0 and a schema at address 2 that has it
  registered; \<open>copied_heap\<close> is that store after the schema was copied to address 3.
\<close>

definition example_heap :: heap where
  "example_heap = \<lparr>classes = [0 \<mapsto> Street], schemas = [2 \<mapsto> {0}], next_addr = 3\<rparr>"

definition copied_heap :: heap where
  "copied_heap = \<lparr>classes = [0 \<mapsto> Street], schemas = [2 \<mapsto> {0}, 3 \<mapsto> {0}], next_addr = 4\<rparr>"

section \<open>Merged annotations\<close>

lemma map_of_dict_update:
  "distinct (map fst other) \<Longrightarrow> map_of (dict_update d other) = map_of d ++ map_of other"
proof (induction other arbitrary: d)
  case Nil
  then show ?case by (simp add: dict_update_def)
next
  case (Cons p other)
  obtain k v where p: "p = (k, v)" by (cases p)
  from Cons.prems have k: "k \<notin> dom (map_of other)" and dist: "distinct (map fst other)"
    by (auto simp: p dom_map_of_conv_image_fst)
  have "map_of (dict_update d (p # other)) = map_of (dict_update (AList.update k v d) other)"
    by (simp add: dict_update_def p)
  also have "\<dots> = map_of (AList.update k v d) ++ map_of other"
    by (rule Cons.IH [OF dist])
  also have "\<dots> = (map_of d)(k \<mapsto> v) ++ map_of other"
    by (simp only: update_conv')
  also have "\<dots> = map_of d ++ map_of (p # other)"
    using k by (auto simp: p map_add_def fun_eq_iff split: option.splits)
  finally show ?case .
qed

text \<open>
  Claim C1, as the code has it. The merge starts from the declaring body's own fields
  and then writes the \<open>_annotations\<close> of each base over it, in the order of the bases
  (\<open>m ++ m'\<close> is the map in which the entries of \<open>m'\<close> win). A field of an ancestor that
  is not yet present is added; on a name collision the declared type of the ancestor
  replaces the one of the class itself, and of two bases the later one wins. The own
  declared type is kept only for a name that no base has. The annotations of a base
  are a dictionary, so their names are distinct.
\<close>

theorem TerminusClass_annotations_merge:
  assumes "\<forall>p \<in> set bases. \<forall>a. p = Some a \<longrightarrow> distinct (map fst a)"
  shows "map_of (TerminusClass_annotations own bases) =
           foldl (++) (map_of (case own of Some a \<Rightarrow> a | None \<Rightarrow> []))
                 (map (\<lambda>p. map_of (case p of Some a \<Rightarrow> a | None \<Rightarrow> [])) bases)"
proof -
  have "map_of (foldl (\<lambda>annotations parent.
              dict_update annotations (case parent of Some a \<Rightarrow> a | None \<Rightarrow> [])) start bases)
        = foldl (++) (map_of start) (map (\<lambda>p. map_of (case p of Some a \<Rightarrow> a | None \<Rightarrow> [])) bases)"
    for start
    using assms
  proof (induction bases arbitrary: start)
    case Nil
    then show ?case by simp
  next
    case (Cons b bases)
    have "distinct (map fst (case b of Some a \<Rightarrow> a | None \<Rightarrow> []))"
      using Cons.prems by (cases b) auto
    then show ?case
      using Cons.IH Cons.prems by (simp add: map_of_dict_update)
  qed
  then show ?thesis by (simp add: TerminusClass_annotations_def)
qed

text \<open>
  A class that declares \<open>x: int, y: bool\<close> over a base with \<open>x: str, z: int\<close> (and a
  second base without annotations) ends with \<open>x: str\<close>.
\<close>

theorem TerminusClass_annotations_merge_witness:
  "map_of (TerminusClass_annotations (Some [(''x'', TInt), (''y'', TBool)])
             [Some [(''x'', TStr), (''z'', TInt)], None])
     = [''x'' \<mapsto> TStr, ''y'' \<mapsto> TBool, ''z'' \<mapsto> TInt]"
proof -
  have d: "\<forall>p \<in> set [Some [(''x'', TStr), (''z'', TInt)], None].
             \<forall>a. p = Some a \<longrightarrow> distinct (map fst a)"
    by simp
  show ?thesis
    using TerminusClass_annotations_merge [OF d, of "Some [(''x'', TInt), (''y'', TBool)]"]
    by (auto simp: fun_eq_iff map_add_def)
qed

text \<open>
  The claim as first stated fails: a class declaring \<open>x: int\<close> over a base declaring
  \<open>x: str\<close> does not keep its own \<open>int\<close>.
\<close>

theorem TerminusClass_annotations_counterexample:
  "map_of (TerminusClass_annotations (Some [(''x'', TInt)]) [Some [(''x'', TStr)]]) ''x''
     \<noteq> Some TInt"
  by (simp add: TerminusClass_annotations_def dict_update_def)

section \<open>Identifiers\<close>

lemma quote_Ann_Lee: "quote ''Ann Lee'' = ''Ann%20Lee''"
  by code_simp

text \<open>
  On a document instance the first key field ends the computation: when the instance
  has the attribute, \<open>literal_eval\<close> raises; when it has not, the code raises itself.
\<close>

lemma key_list_Document:
  "key_list (item # items) (Document c d) =
     Inl (if hasattr_doc c d item then LiteralEvalError else CannotGet item)"
  by (simp add: literal_eval_obj_attr_def)

text \<open>Read from a dictionary, the same fields give the identifier of the scenario.\<close>

lemma LexicalKey_idgen_dictionary_scenario:
  "LexicalKey_idgen [''name'']
     (Dictionary [(''@type'', VStr ''Person''), (''name'', VStr ''Ann Lee''), (''age'', VInt 30)])
   = Inr ''Person_Ann%20Lee''"
  by (simp add: LexicalKey_idgen_def dict_attr_names_def dict_get_def prefix_of_def quote_Ann_Lee)

text \<open>
  Claim C2 at \<open>Person(name="Ann Lee", age=30)\<close> with a lexical key on \<open>name\<close>: the
  code does not return \<open>Person_Ann%20Lee\<close>, it raises in \<open>ast.literal_eval\<close>.
\<close>

theorem LexicalKey_idgen_Person:
  "LexicalKey_idgen [''name''] (Document Person Ann) = Inl LiteralEvalError"
  by (simp add: LexicalKey_idgen_def Person_def Ann_def hasattr_doc_def literal_eval_obj_attr_def)











text \<open>
  Claim C9. \<open>ValueHashKey\<close> has no \<open>idgen\<close>: for every object the call fails, with
  Python's \<open>AttributeError\<close>.
\<close>

theorem ValueHashKey_idgen_fails: "idgen ValueHashKey u obj = Inl (AttributeError ''idgen'')"
  by simp

theorem ValueHashKey_idgen_fails_witness:
  "idgen ValueHashKey ''0f'' (Document Person Ann) = Inl (AttributeError ''idgen'')"
  by (rule ValueHashKey_idgen_fails)

section \<open>Class-level serialization: the type tag and sub-documents\<close>



lemma to_dict_head_type:
  "to_dict_head cls = Inr r \<Longrightarrow> map_of r ''@type'' = Some (VStr ''Class'')"
  by (auto simp: to_dict_head_def Let_def split: if_splits option.splits)

lemma map_of_to_dict_fields:
  "k \<notin> set (map fst (cannotations cls)) \<Longrightarrow>
   map_of (to_dict_fields to_woql_type cls result) k = map_of result k"
proof -
  have "k \<notin> set (map fst al) \<Longrightarrow>
        map_of (foldl (\<lambda>r (attr, attr_type). AList.update attr (to_woql_type attr_type) r) result al) k
          = map_of result k" for al
    by (induction al arbitrary: result) (auto simp: update_conv')
  then show "k \<notin> set (map fst (cannotations cls)) \<Longrightarrow> ?thesis"
    by (simp add: to_dict_fields_def)
qed

lemma to_dict_flags_type: "map_of (to_dict_flags cls r) ''@type'' = map_of r ''@type''"
  by (auto simp: to_dict_flags_def update_conv' Let_def split: option.splits)

lemma to_dict_key_type:
  "to_dict_key cls r = Inr r' \<Longrightarrow> map_of r' ''@type'' = map_of r ''@type''"
  by (auto simp: to_dict_key_def update_conv' split: option.splits if_splits sum.splits)

text \<open>
  The branch that writes \<open>"TaggedUnion"\<close> is an \<open>elif\<close> of the test
  \<open>cls.__base__.__name__ != "DocumentTemplate"\<close>; it is reached only when the base is
  named \<open>DocumentTemplate\<close>, where its own test fails. So the tag is \<open>"Class"\<close> for
  every class whose field names are identifiers.
\<close>

lemma to_dict_type_always_Class:
  assumes "DocumentTemplate_to_dict to_woql_type cls = Inr r"
    and "''@type'' \<notin> set (map fst (cannotations cls))"
  shows "map_of r ''@type'' = Some (VStr ''Class'')"
  using assms
  by (auto simp: DocumentTemplate_to_dict_def map_of_to_dict_fields to_dict_flags_type
      dest!: to_dict_head_type to_dict_key_type split: sum.splits)

text \<open>
  Claim C5 at \<open>class Choice(TaggedUnion): pass\<close>: the nearest ancestor of \<open>Choice\<close> is
  \<open>TaggedUnion\<close>, and \<open>Choice._to_dict()\<close> has \<open>@type\<close> \<open>"Class"\<close> where the claim has
  \<open>"TaggedUnion"\<close>.
\<close>

theorem to_dict_Choice:
  "DocumentTemplate_to_dict to_woql_type Choice =
     Inr [(''@type'', VStr ''Class''), (''@id'', VStr ''Choice''),
          (''@inherits'', VList [VStr ''TaggedUnion'']),
          (''@key'', VDict [(''@type'', VStr ''Random'')])]"
  by (simp add: DocumentTemplate_to_dict_def to_dict_head_def to_dict_flags_def to_dict_key_def
      to_dict_fields_def key_entry_def Choice_def)





section \<open>Instance serialization: fields\<close>

lemma map_of_fields_to_dict:
  "map_of (fields_to_dict c d items result) k =
     (if k \<in> set items then
        (case getattr_doc c d k of
           Some v \<Rightarrow> if v = VNone then map_of result k else Some (item_to_doc v)
         | None \<Rightarrow> map_of result k)
      else map_of result k)"
  by (induction items arbitrary: result) (auto simp: update_conv' split: option.splits)

lemma distinct_fields_to_dict:
  "distinct (map fst result) \<Longrightarrow> distinct (map fst (fields_to_dict c d items result))"
  by (induction items arbitrary: result) (auto simp: distinct_update split: option.splits)

lemma no_at_head: "CHR ''@'' \<notin> set f \<Longrightarrow> f \<noteq> ''@type'' \<and> f \<noteq> ''@id''"
  by auto

lemma map_of_obj_to_dict:
  assumes "CHR ''@'' \<notin> set f"
  shows "map_of (obj_to_dict c d) f =
     (if f \<in> set (map fst (cannotations c)) then
        (case getattr_doc c d f of
           Some v \<Rightarrow> if v = VNone then None else Some (item_to_doc v)
         | None \<Rightarrow> None)
      else None)"
  using no_at_head [OF assms]
  by (auto simp: map_of_fields_to_dict split: option.splits)

lemma distinct_obj_to_dict: "distinct (map fst (obj_to_dict c d))"
  by (auto intro!: distinct_fields_to_dict split: option.splits)

lemma count_key:
  "distinct (map fst al) \<Longrightarrow>
   length (filter (\<lambda>e. fst e = k) al) = (case map_of al k of Some v \<Rightarrow> 1 | None \<Rightarrow> 0)"
  by (induction al) (auto split: option.splits simp: map_of_eq_None_iff image_iff)

text \<open>
  Claim C6, as the code has it. Let the declared field \<open>f\<close> of an instance hold an
  instance of the class \<open>c'\<close>. If \<open>_subdocument\<close> is found on \<open>c'\<close>, the entry of \<open>f\<close> is
  the recursive serialization of the value, also when the value has an \<open>_id\<close>. If it
  is not and the key strategy of \<open>c'\<close> has \<open>idgen\<close>, a value with \<open>_id\<close> \<open>i\<close> is emitted as
  the reference \<open>{"@id": i, "@type": "@id"}\<close>. If the key strategy of \<open>c'\<close> has no
  \<open>idgen\<close> (\<open>ValueHashKey\<close>), the value is inlined like a sub-document, with or
  without an \<open>_id\<close>.
\<close>

theorem to_document_embedded:
  assumes "f \<in> set (map fst (cannotations c))" and "CHR ''@'' \<notin> set f"
    and "getattr_doc c d f = Some (VObj c' d')"
  shows "(map_of (cattrs c') ''_subdocument'' = Some s \<longrightarrow>
            map_of (to_document c d) f = Some (VDict (to_document c' d')))
       \<and> (map_of (cattrs c') ''_subdocument'' = None \<and> map_of (cattrs c') ''_key'' = Some k
            \<and> has_idgen k \<and> getattr_doc c' d' ''_id'' = Some i \<longrightarrow>
            map_of (to_document c d) f = Some (VDict [(''@id'', i), (''@type'', VStr ''@id'')]))
       \<and> (map_of (cattrs c') ''_subdocument'' = None \<and> map_of (cattrs c') ''_key'' = Some k
            \<and> \<not> has_idgen k \<longrightarrow>
            map_of (to_document c d) f = Some (VDict (to_document c' d')))"
  using assms
  by (simp add: to_document_def map_of_obj_to_dict inlined_def del: obj_to_dict.simps)

text \<open>
  A customer with a sub-document address, an ordinary country and a stamp keyed by
  \<open>ValueHashKey\<close>, each with an \<open>_id\<close>: the address and the stamp are inlined, the
  country is a reference.
\<close>

theorem to_document_embedded_witness:
  "map_of (to_document Customer customer1) ''address'' = Some (VDict (to_document Address home))
   \<and> map_of (to_document Customer customer1) ''country''
       = Some (VDict [(''@id'', VStr ''Country_1''), (''@type'', VStr ''@id'')])
   \<and> map_of (to_document Customer customer1) ''stamp'' = Some (VDict (to_document Stamp stamp1))"
proof -
  have a: "''address'' \<in> set (map fst (cannotations Customer))" "CHR ''@'' \<notin> set ''address''"
    "getattr_doc Customer customer1 ''address'' = Some (VObj Address home)"
    "map_of (cattrs Address) ''_subdocument'' = Some (VList [])"
    by (simp_all add: Customer_def customer1_def getattr_doc_def Address_def)
  have b: "''country'' \<in> set (map fst (cannotations Customer))" "CHR ''@'' \<notin> set ''country''"
    "getattr_doc Customer customer1 ''country'' = Some (VObj Country france)"
    "map_of (cattrs Country) ''_subdocument'' = None"
    "map_of (cattrs Country) ''_key'' = Some (VKey RandomKey)" "has_idgen (VKey RandomKey)"
    "getattr_doc Country france ''_id'' = Some (VStr ''Country_1'')"
    by (simp_all add: Customer_def customer1_def getattr_doc_def Country_def france_def)
  have c: "''stamp'' \<in> set (map fst (cannotations Customer))" "CHR ''@'' \<notin> set ''stamp''"
    "getattr_doc Customer customer1 ''stamp'' = Some (VObj Stamp stamp1)"
    "map_of (cattrs Stamp) ''_subdocument'' = None"
    "map_of (cattrs Stamp) ''_key'' = Some (VKey ValueHashKey)" "\<not> has_idgen (VKey ValueHashKey)"
    by (simp_all add: Customer_def customer1_def getattr_doc_def Stamp_def)
  show ?thesis
    using to_document_embedded [OF a(1-3), of "VList []"] a(4)
      to_document_embedded [OF b(1-3), of _ "VKey RandomKey" "VStr ''Country_1''"] b(4-7)
      to_document_embedded [OF c(1-3), of _ "VKey ValueHashKey"] c(4-6)
    by blast
qed

text \<open>
  The claim as first stated fails: the stamp is not an instance of a sub-document
  class and it has an assigned identifier, yet it is inlined, not emitted as a
  reference.
\<close>

theorem to_document_reference_counterexample:
  "getattr_doc Stamp stamp1 ''_id'' = Some (VStr ''Stamp_1'')
   \<and> map_of (cattrs Stamp) ''_subdocument'' = None
   \<and> map_of (to_document Customer customer1) ''stamp''
       = Some (VDict [(''@type'', VStr ''Stamp''), (''@id'', VStr ''Stamp_1''), (''code'', VStr ''s'')])"
  by (simp add: to_document_def Customer_def customer1_def Stamp_def stamp1_def getattr_doc_def
      inlined_def Address_def Country_def home_def france_def)

text \<open>
  Claim C7. For every instance and every declared field \<open>f\<close> (an identifier, so without
  \<open>@\<close>), the number of entries of \<open>to_document()\<close> under the name \<open>f\<close> is 0 when the
  current value of the field is \<open>None\<close> (or the attribute is gone) and 1 when it is not
  \<open>None\<close>.
\<close>

theorem to_document_entries:
  assumes "f \<in> set (map fst (cannotations c))" and "CHR ''@'' \<notin> set f"
  shows "length (filter (\<lambda>e. fst e = f) (to_document c d)) =
           (case getattr_doc c d f of
              Some v \<Rightarrow> if v = VNone then 0 else 1
            | None \<Rightarrow> 0)"
  using assms
  by (simp add: to_document_def count_key [OF distinct_obj_to_dict] map_of_obj_to_dict
      split: option.splits del: obj_to_dict.simps)

theorem to_document_entries_witness:
  "length (filter (\<lambda>e. fst e = ''name'')
             (to_document Person [(''name'', VStr ''Ann Lee''), (''age'', VNone)])) = 1
   \<and> length (filter (\<lambda>e. fst e = ''age'')
             (to_document Person [(''name'', VStr ''Ann Lee''), (''age'', VNone)])) = 0"
proof -
  let ?d = "[(''name'', VStr ''Ann Lee''), (''age'', VNone)]"
  have n: "''name'' \<in> set (map fst (cannotations Person))" "CHR ''@'' \<notin> set ''name''"
    and a: "''age'' \<in> set (map fst (cannotations Person))" "CHR ''@'' \<notin> set ''age''"
    by (simp_all add: Person_def)
  have g: "getattr_doc Person ?d ''name'' = Some (VStr ''Ann Lee'')"
    "getattr_doc Person ?d ''age'' = Some VNone"
    by (simp_all add: getattr_doc_def)
  show ?thesis
    using to_document_entries [OF n, of ?d] to_document_entries [OF a, of ?d] g
    by simp
qed

section \<open>Copying a schema\<close>

text \<open>
  Claim C8, as the code has it. \<open>WOQLSchema.copy\<close> returns a new container with a set
  of its own: the copy and the original list the same classes, and registering a
  class in either leaves the set of the other as it was. The registered classes are
  not copied: the new set holds the very same class objects, and the store of classes
  is untouched.
\<close>

theorem WOQLSchema_copy_container:
  assumes "heap_ok h" and "schemas h s = Some objs"
  shows "\<exists>h' s'. WOQLSchema_copy h s = Some (h', s')
          \<and> s' \<noteq> s
          \<and> all_obj h' s' = Some objs
          \<and> all_obj h' s = Some objs
          \<and> classes h' = classes h
          \<and> all_obj (add_obj h' s' c) s = Some objs
          \<and> all_obj (add_obj h' s c) s' = Some objs"
proof -
  have "s \<noteq> next_addr h"
    using assms by (auto simp: heap_ok_def)
  then show ?thesis
    using assms(2)
    by (auto simp: WOQLSchema_copy_def all_obj_def add_obj_def deepcopy_class_def)
qed

theorem WOQLSchema_copy_container_witness:
  "\<exists>h' s'. WOQLSchema_copy example_heap 2 = Some (h', s')
          \<and> s' \<noteq> 2
          \<and> all_obj h' s' = Some {0}
          \<and> all_obj h' 2 = Some {0}
          \<and> classes h' = classes example_heap
          \<and> all_obj (add_obj h' s' 5) 2 = Some {0}
          \<and> all_obj (add_obj h' 2 5) s' = Some {0}"
proof -
  have 1: "heap_ok example_heap"
    by (simp add: heap_ok_def example_heap_def)
  have 2: "schemas example_heap 2 = Some {0}"
    by (simp add: example_heap_def)
  show ?thesis
    by (rule WOQLSchema_copy_container [OF 1 2])
qed

lemma copy_example_heap: "WOQLSchema_copy example_heap 2 = Some (copied_heap, 3)"
  by (simp add: WOQLSchema_copy_def example_heap_def copied_heap_def deepcopy_class_def
      fun_upd_twist)

text \<open>
  The claim as first stated fails: after the copy, the class at address 0 is
  registered in the copy (address 3) and in the original (address 2); assigning
  \<open>_base\<close> on the class reached from the copy changes the class the original holds.
\<close>

theorem WOQLSchema_copy_counterexample:
  "WOQLSchema_copy example_heap 2 = Some (copied_heap, 3)
   \<and> all_obj copied_heap 3 = Some {0}
   \<and> all_obj copied_heap 2 = Some {0}
   \<and> class_at (set_class_attr copied_heap 0 ''_base'' (VStr ''X'')) 0 \<noteq> class_at copied_heap 0"
  by (simp add: copy_example_heap all_obj_def class_at_def set_class_attr_def copied_heap_def
      Street_def)

end
